theory Spec2Isabelle
  imports Complex_Main
begin

section \<open>JavaScript string primitives used by the bootstrap code\<close>

text \<open>
  Strings are lists of characters.  \<open>str_includes\<close> is \<^verbatim>\<open>String.prototype.includes\<close>
  (is the needle a contiguous part of the text), \<open>endsWith\<close> is
  \<^verbatim>\<open>String.prototype.endsWith\<close>, and \<open>replace\<close> is \<^verbatim>\<open>String.prototype.replace\<close>
  with a string pattern: only the first occurrence, scanning from the left, is replaced.
\<close>

definition startsWith :: "string \<Rightarrow> string \<Rightarrow> bool" where
  "startsWith s needle = (take (length needle) s = needle)"

fun str_includes :: "string \<Rightarrow> string \<Rightarrow> bool" where
  "str_includes [] needle = (needle = [])"
| "str_includes (c # cs) needle = (startsWith (c # cs) needle \<or> str_includes cs needle)"

definition endsWith :: "string \<Rightarrow> string \<Rightarrow> bool" where
  "endsWith s suffix =
     (length suffix \<le> length s \<and> drop (length s - length suffix) s = suffix)"

fun replace :: "string \<Rightarrow> string \<Rightarrow> string \<Rightarrow> string" where
  "replace [] pat rep = (if pat = [] then rep else [])"
| "replace (c # cs) pat rep =
     (if startsWith (c # cs) pat then rep @ drop (length pat) (c # cs)
      else c # replace cs pat rep)"

section \<open>Enhancement validation (\<^verbatim>\<open>validateEnhancements\<close>)\<close>

text \<open>
  The source starts with an empty error list and pushes one message per failed check,
  in this order: neither an \<^verbatim>\<open>'export '\<close> nor an \<^verbatim>\<open>'import '\<close> marker; a double
  space together with \<^verbatim>\<open>'export default'\<close>; the token \<^verbatim>\<open>'undefined'\<close>.  The
  result is valid when the list is empty.
\<close>

record Validation =
  valid :: bool
  errors :: "string list"

definition validateEnhancements :: "string \<Rightarrow> Validation" where
  "validateEnhancements content =
     (let errors0 = [];
          errors1 = (if \<not> str_includes content ''export '' \<and> \<not> str_includes content ''import ''
                     then errors0 @ [''Invalid TypeScript code''] else errors0);
          errors2 = (if str_includes content ''  '' \<and> str_includes content ''export default''
                     then errors1 @ [''Indentation errors detected''] else errors1);
          errors3 = (if str_includes content ''undefined''
                     then errors2 @ [''Undefined references detected''] else errors2)
      in \<lparr>valid = (length errors3 = 0), errors = errors3\<rparr>)"

section \<open>The file service and the apply step (\<^verbatim>\<open>applyEnhancements\<close>)\<close>

text \<open>
  \<^verbatim>\<open>readFile\<close> and \<^verbatim>\<open>writeFile\<close> talk to a file service over HTTP.  The service is
  a map from paths to contents.  \<^verbatim>\<open>readFile\<close> answers the empty string for a path with
  no content (\<^verbatim>\<open>data.content || ''\<close>, and the same in its \<^verbatim>\<open>catch\<close>);
  \<^verbatim>\<open>writeFile\<close> stores the content and returns nothing.
\<close>

type_synonym files = "string \<rightharpoonup> string"

definition readFile :: "files \<Rightarrow> string \<Rightarrow> string" where
  "readFile fs filePath = (case fs filePath of None \<Rightarrow> [] | Some content \<Rightarrow> content)"

definition writeFile :: "files \<Rightarrow> string \<Rightarrow> string \<Rightarrow> files" where
  "writeFile fs filePath content = fs(filePath \<mapsto> content)"

text \<open>
  \<^verbatim>\<open>createPatch\<close> builds the patch descriptor (the source serialises it with
  \<^verbatim>\<open>JSON.stringify\<close>; the model keeps the object).  \<^verbatim>\<open>s.split('\n').length\<close> is one more
  than the number of newline characters of \<open>s\<close>.
\<close>

record Patch =
  originalLength :: nat
  modifiedLength :: nat
  linesAdded :: int
  timestamp :: int

definition splitLines_length :: "string \<Rightarrow> nat" where
  "splitLines_length s = Suc (count_list s (CHR 0x0A))"

definition createPatch :: "int \<Rightarrow> string \<Rightarrow> string \<Rightarrow> Patch" where
  "createPatch now original modified =
     \<lparr>originalLength = length original,
      modifiedLength = length modified,
      linesAdded = int (splitLines_length modified) - int (splitLines_length original),
      timestamp = now\<rparr>"

text \<open>
  \<^verbatim>\<open>applyEnhancements\<close> reads the current content, builds the patch (which it does not
  use), then awaits two writes in this order: the enhanced content to the original path,
  and the content read before to the path with \<^verbatim>\<open>.backup\<close> appended.  The trace lists
  the state of the file service before the first write, between the two writes and after
  the second one; the result of the step is the last state.
\<close>

definition applyEnhancements_trace :: "int \<Rightarrow> string \<Rightarrow> string \<Rightarrow> files \<Rightarrow> files list" where
  "applyEnhancements_trace now originalPath enhancedContent fs =
     (let currentContent = readFile fs originalPath;
          patch = createPatch now currentContent enhancedContent;
          fs1 = writeFile fs originalPath enhancedContent;
          fs2 = writeFile fs1 (originalPath @ ''.backup'') currentContent
      in [fs, fs1, fs2])"

definition applyEnhancements :: "int \<Rightarrow> string \<Rightarrow> string \<Rightarrow> files \<Rightarrow> files" where
  "applyEnhancements now originalPath enhancedContent fs =
     last (applyEnhancements_trace now originalPath enhancedContent fs)"

section \<open>The coordination record\<close>

datatype system_status = Initializing | Active | Evolving | SystemIdle | SystemError

datatype enhancer_status = EnhancerActive | EnhancerIdle | EnhancerError

datatype coordination_mode = DualLLM | SingleLLM

datatype evolution_status = EvolutionIdle | EvolutionRunning | EvolutionPaused

record EnhancerState =
  activeFiles :: "string list"
  lastHeartbeat :: int
  status :: enhancer_status

text \<open>
  The two entries of \<^verbatim>\<open>enhancers\<close>: \<^verbatim>\<open>'omeaga-system'\<close> is this process (self) and
  \<^verbatim>\<open>'other-enhancer'\<close> is the peer.
\<close>

record Enhancers =
  omeaga_system :: EnhancerState
  other_enhancer :: EnhancerState

record EvolutionState =
  cycle :: int
  evolution_status :: evolution_status
  evolution_startTime :: "int option"
  evolution_lastUpdate :: "int option"

record CoordinationData =
  version :: string
  lastUpdate :: int
  systemStatus :: system_status
  enhancers :: Enhancers
  mode :: coordination_mode
  evolution :: EvolutionState

text \<open>
  The state the bootstrap code works on: the file service, the coordination file as
  \<^verbatim>\<open>fetch\<close> finds it (\<open>None\<close> when reading it fails), and the records printed to the
  console.  All reads of \<^verbatim>\<open>Date.now()\<close> in one operation are
  taken at the same millisecond \<open>now\<close>.
\<close>

record World =
  files :: files
  coordinationFile :: "CoordinationData option"
  printedRecords :: "CoordinationData list"

definition defaultCoordination :: "int \<Rightarrow> CoordinationData" where
  "defaultCoordination now =
     \<lparr>version = ''1.0'',
      lastUpdate = now,
      systemStatus = Initializing,
      enhancers =
        \<lparr>omeaga_system = \<lparr>activeFiles = [], lastHeartbeat = now, status = EnhancerActive\<rparr>,
         other_enhancer = \<lparr>activeFiles = [], lastHeartbeat = now, status = EnhancerIdle\<rparr>\<rparr>,
      mode = DualLLM,
      evolution =
        \<lparr>cycle = 0, evolution_status = EvolutionIdle,
         evolution_startTime = None, evolution_lastUpdate = None\<rparr>\<rparr>"

text \<open>
  \<^verbatim>\<open>readCoordinationFile\<close> returns the stored record, and the default record when the
  read fails.
\<close>

definition readCoordinationFile :: "int \<Rightarrow> World \<Rightarrow> CoordinationData" where
  "readCoordinationFile now w =
     (case coordinationFile w of None \<Rightarrow> defaultCoordination now | Some data \<Rightarrow> data)"

text \<open>
  \<^verbatim>\<open>writeCoordinationFile\<close> prints the record it is given
  (\<^verbatim>\<open>console.log(JSON.stringify(data, null, 2))\<close>) and does nothing else: it stores nothing,
  so the coordination file is what it was.
\<close>

definition writeCoordinationFile :: "CoordinationData \<Rightarrow> World \<Rightarrow> World" where
  "writeCoordinationFile data w = w\<lparr>printedRecords := printedRecords w @ [data]\<rparr>"

definition initializeCoordination :: "int \<Rightarrow> World \<Rightarrow> World" where
  "initializeCoordination now w = writeCoordinationFile (defaultCoordination now) w"

subsection \<open>Identifiers and the scope of a method body\<close>

text \<open>
  Evaluating an identifier that no enclosing scope binds throws a \<^verbatim>\<open>ReferenceError\<close>.
  A scope lists the bindings of record type visible at the point of use.  In
  \<^verbatim>\<open>updateHeartbeat\<close>, \<^verbatim>\<open>removeFileFromCoordination\<close>, \<^verbatim>\<open>updateCoordinationStatus\<close>
  and \<^verbatim>\<open>handleBootError\<close> the only such binding is the local \<^verbatim>\<open>coordination\<close>: the
  module binds no \<^verbatim>\<open>coordinationData\<close> (that name is local to
  \<^verbatim>\<open>initializeCoordination\<close>), yet each of them passes \<^verbatim>\<open>coordinationData\<close> to
  \<^verbatim>\<open>writeCoordinationFile\<close>.
\<close>

datatype js_error = ReferenceError string | TypeError string

definition resolve :: "(string \<times> 'a) list \<Rightarrow> string \<Rightarrow> js_error + 'a" where
  "resolve scope name =
     (case map_of scope name of None \<Rightarrow> Inl (ReferenceError name) | Some v \<Rightarrow> Inr v)"

subsection \<open>Heartbeat (\<^verbatim>\<open>updateHeartbeat\<close>)\<close>

text \<open>
  The result is the outcome of the call (\<open>Inl\<close> the error the promise is rejected with)
  and the state afterwards.
\<close>

definition updateHeartbeat :: "int \<Rightarrow> World \<Rightarrow> (js_error + unit) \<times> World" where
  "updateHeartbeat now w =
     (let coordination0 = readCoordinationFile now w;
          coordination1 = coordination0
            \<lparr>enhancers := (enhancers coordination0)
               \<lparr>omeaga_system := (omeaga_system (enhancers coordination0))
                  \<lparr>lastHeartbeat := now\<rparr>\<rparr>\<rparr>;
          coordination = coordination1\<lparr>lastUpdate := now\<rparr>
      in case resolve [(''coordination'', coordination)] ''coordinationData'' of
           Inl e \<Rightarrow> (Inl e, w)
         | Inr data \<Rightarrow> (Inr (), writeCoordinationFile data w))"

subsection \<open>Conflict check (\<^verbatim>\<open>checkForConflicts\<close>)\<close>

text \<open>The lines the bootstrap code prints, one constructor per message.\<close>

datatype log_line =
    CheckingForConflicts
  | OtherEnhancerIsActive int
  | OtherEnhancerIsWorkingOn nat
  | FileLine string
  | ConflictDetected
  | NoConflictsDetected
  | OtherEnhancerUpdatedRecently int
  | FoundReadyFile string
  | ProcessingReadyFile string
  | EnhancementsValidated string
  | SuccessfullyApplied string
  | EnhancementsInvalid string "string list"
  | FailedToProcess string js_error

definition checkForConflicts :: "int \<Rightarrow> World \<Rightarrow> log_line list" where
  "checkForConflicts now w =
     (let coordination = readCoordinationFile now w;
          otherEnhancer = other_enhancer (enhancers coordination);
          heartbeatAge = now - lastHeartbeat otherEnhancer
      in [CheckingForConflicts] @
         (if status otherEnhancer = EnhancerActive \<and> heartbeatAge < 300000
          then [OtherEnhancerIsActive (heartbeatAge div 1000)] @
               (if length (activeFiles otherEnhancer) > 0
                then [OtherEnhancerIsWorkingOn (length (activeFiles otherEnhancer))] @
                     map FileLine (activeFiles otherEnhancer) @
                     [ConflictDetected]
                else [])
          else [NoConflictsDetected]))"

definition reportsConflict :: "log_line list \<Rightarrow> bool" where
  "reportsConflict lines = (ConflictDetected \<in> set lines)"

subsection \<open>Processing a ready file\<close>

text \<open>
  \<^verbatim>\<open>Array.prototype.indexOf\<close> (first position, or \<open>-1\<close>) and
  \<^verbatim>\<open>splice(index, 1)\<close> (drop the element at that position).
\<close>

fun indexOf :: "'a list \<Rightarrow> 'a \<Rightarrow> int" where
  "indexOf [] x = - 1"
| "indexOf (y # ys) x =
     (if y = x then 0 else (let i = indexOf ys x in if i = - 1 then - 1 else i + 1))"

definition splice1 :: "nat \<Rightarrow> 'a list \<Rightarrow> 'a list" where
  "splice1 i xs = take i xs @ drop (Suc i) xs"

definition removeFileFromCoordination ::
  "int \<Rightarrow> string \<Rightarrow> World \<Rightarrow> (js_error + unit) \<times> World" where
  "removeFileFromCoordination now filePath w =
     (let coordination0 = readCoordinationFile now w;
          index = indexOf (activeFiles (other_enhancer (enhancers coordination0))) filePath
      in if index \<noteq> - 1 then
           (let coordination1 = coordination0
                  \<lparr>enhancers := (enhancers coordination0)
                     \<lparr>other_enhancer := (other_enhancer (enhancers coordination0))
                        \<lparr>activeFiles :=
                           splice1 (nat index)
                             (activeFiles (other_enhancer (enhancers coordination0)))\<rparr>\<rparr>\<rparr>;
                coordination = coordination1\<lparr>lastUpdate := now\<rparr>
            in case resolve [(''coordination'', coordination)] ''coordinationData'' of
                 Inl e \<Rightarrow> (Inl e, w)
               | Inr data \<Rightarrow> (Inr (), writeCoordinationFile data w))
         else (Inr (), w))"

text \<open>
  \<^verbatim>\<open>processReadyFile\<close> runs in a \<^verbatim>\<open>try\<close> block whose \<^verbatim>\<open>catch\<close> prints the error:
  an error thrown by \<^verbatim>\<open>removeFileFromCoordination\<close> ends the processing there, after the
  two file writes.  The result is the state afterwards and the lines printed.
\<close>

definition processReadyFile :: "int \<Rightarrow> string \<Rightarrow> World \<Rightarrow> World \<times> log_line list" where
  "processReadyFile now filePath w =
     (let enhancedContent = readFile (files w) (replace filePath ''.ready'' ''.enhancer.ts'');
          validation = validateEnhancements enhancedContent
      in if valid validation then
           (let originalPath = replace filePath ''.ready'' '''';
                w1 = w\<lparr>files := applyEnhancements now originalPath enhancedContent (files w)\<rparr>
            in case removeFileFromCoordination now filePath w1 of
                 (Inl e, w2) \<Rightarrow>
                   (w2, [ProcessingReadyFile filePath, EnhancementsValidated filePath,
                         FailedToProcess filePath e])
               | (Inr u, w2) \<Rightarrow>
                   (w2, [ProcessingReadyFile filePath, EnhancementsValidated filePath,
                         SuccessfullyApplied filePath]))
         else (w, [ProcessingReadyFile filePath,
                   EnhancementsInvalid filePath (errors validation)]))"

text \<open>
  \<^verbatim>\<open>checkForEnhancerUpdates\<close>: when the peer is active and its heartbeat is younger than
  one minute, every active file of the peer (as read at the start) that ends in
  \<^verbatim>\<open>.ready\<close> is processed, in order.
\<close>

fun processReadyFiles :: "int \<Rightarrow> string list \<Rightarrow> World \<Rightarrow> World \<times> log_line list" where
  "processReadyFiles now [] w = (w, [])"
| "processReadyFiles now (file # rest) w =
     (if endsWith file ''.ready'' then
        (let (w1, lines1) = processReadyFile now file w;
             (w2, lines2) = processReadyFiles now rest w1
         in (w2, FoundReadyFile file # lines1 @ lines2))
      else processReadyFiles now rest w)"

definition checkForEnhancerUpdates :: "int \<Rightarrow> World \<Rightarrow> World \<times> log_line list" where
  "checkForEnhancerUpdates now w =
     (let coordination = readCoordinationFile now w;
          otherEnhancer = other_enhancer (enhancers coordination);
          updateAge = now - lastHeartbeat otherEnhancer
      in if status otherEnhancer = EnhancerActive \<and> updateAge < 60000
         then (let (w1, lines) = processReadyFiles now (activeFiles otherEnhancer) w
               in (w1, OtherEnhancerUpdatedRecently (updateAge div 1000) # lines))
         else (w, []))"

section \<open>The agentic facade\<close>

text \<open>
  Numbers that count or stamp milliseconds are integers; percentages and averages are
  rationals, computed exactly.  A property that the source leaves \<^verbatim>\<open>undefined\<close> is
  \<open>None\<close>.  Field names that several source interfaces share carry the interface as a
  prefix.
\<close>

datatype payload = EmptyObject | Payload string

record TaskSubmission =
  taskId :: string
  taskDescription :: string
  taskType :: string
  domain :: string
  priority :: int
  inputs :: "payload option"
  submission_context :: "payload option"
  timeoutMs :: "int option"
  maxRetries :: "int option"

record Task =
  task_id :: string
  task_description :: string
  task_type :: string
  task_domain :: string
  task_priority :: int
  task_inputs :: payload
  task_context :: payload

record ExecuteOptions =
  option_timeout :: "int option"
  option_maxRetries :: int

record TaskResult =
  success :: bool
  agentId :: "string option"
  result_startTime :: "int option"
  result_endTime :: "int option"
  duration :: "int option"
  result_output :: "payload option"
  result_error :: "string option"

datatype task_state = Pending | InProgress | Completed | Failed | Timeout

record TaskStatus =
  status_taskId :: string
  status_status :: task_state
  assignedAgent :: "string option"
  status_startTime :: "int option"
  status_endTime :: "int option"
  status_duration :: "int option"
  progress :: rat
  status_result :: "payload option"
  status_error :: "string option"

text \<open>
  The operator \<^verbatim>\<open>||\<close> on an optional value: the left operand when it is truthy, the
  right one otherwise.  An absent payload is falsy; among the integers only \<open>0\<close> is.
\<close>

definition or_payload :: "payload option \<Rightarrow> payload \<Rightarrow> payload" where
  "or_payload x d = (case x of None \<Rightarrow> d | Some p \<Rightarrow> p)"

definition or_number :: "int option \<Rightarrow> int \<Rightarrow> int" where
  "or_number x d = (case x of None \<Rightarrow> d | Some n \<Rightarrow> if n = 0 then d else n)"

text \<open>
  \<^verbatim>\<open>submitTask\<close> builds the task and the options, awaits the scheduler's
  \<^verbatim>\<open>executeTask\<close> (a parameter here) and converts its result.
\<close>

definition submitTask_task :: "TaskSubmission \<Rightarrow> Task" where
  "submitTask_task submission =
     \<lparr>task_id = taskId submission,
      task_description = taskDescription submission,
      task_type = taskType submission,
      task_domain = domain submission,
      task_priority = priority submission,
      task_inputs = or_payload (inputs submission) EmptyObject,
      task_context = or_payload (submission_context submission) EmptyObject\<rparr>"

definition submitTask_options :: "TaskSubmission \<Rightarrow> ExecuteOptions" where
  "submitTask_options submission =
     \<lparr>option_timeout = timeoutMs submission,
      option_maxRetries = or_number (maxRetries submission) 3\<rparr>"

definition submitTask ::
  "(Task \<Rightarrow> ExecuteOptions \<Rightarrow> TaskResult) \<Rightarrow> TaskSubmission \<Rightarrow> TaskStatus" where
  "submitTask executeTask submission =
     (let task = submitTask_task submission;
          result = executeTask task (submitTask_options submission)
      in \<lparr>status_taskId = taskId submission,
          status_status = (if success result then Completed else Failed),
          assignedAgent = agentId result,
          status_startTime = result_startTime result,
          status_endTime = result_endTime result,
          status_duration = duration result,
          progress = (if success result then 1 else 0),
          status_result = result_output result,
          status_error = result_error result\<rparr>)"

fun batchSubmitTasks ::
  "(Task \<Rightarrow> ExecuteOptions \<Rightarrow> TaskResult) \<Rightarrow> TaskSubmission list \<Rightarrow> TaskStatus list" where
  "batchSubmitTasks executeTask [] = []"
| "batchSubmitTasks executeTask (submission # rest) =
     submitTask executeTask submission # batchSubmitTasks executeTask rest"

subsection \<open>Agents, statistics and health\<close>

datatype agent_status = Idle | Busy | Offline

record Agent =
  agent_id :: string
  agent_name :: string
  agent_domain :: string
  capabilities :: "string list"
  agent_status :: agent_status
  agent_priority :: int

record AgentStatistics =
  totalAgents :: nat
  availableAgents :: nat
  busyAgents :: nat
  offlineAgents :: nat
  byDomain :: "string \<rightharpoonup> nat"
  tasksCompleted :: nat
  averageTaskDuration :: rat

definition countByDomain :: "Agent list \<Rightarrow> (string \<rightharpoonup> nat)" where
  "countByDomain agents =
     foldl (\<lambda>m agent. m(agent_domain agent \<mapsto>
                (case m (agent_domain agent) of None \<Rightarrow> 0 | Some n \<Rightarrow> n) + 1))
       Map.empty agents"

text \<open>
  \<^verbatim>\<open>taskResults.reduce((sum, result) => sum + (result.duration || 0), 0)\<close> runs over all
  task results; the divisor is the number of successful ones.
\<close>

definition getAgentStatistics :: "Agent list \<Rightarrow> TaskResult list \<Rightarrow> AgentStatistics" where
  "getAgentStatistics agents taskResults =
     (let total = length agents;
          available = length (filter (\<lambda>agent. agent_status agent = Idle) agents);
          busy = length (filter (\<lambda>agent. agent_status agent = Busy) agents);
          offline = length (filter (\<lambda>agent. agent_status agent = Offline) agents);
          completedTasks = length (filter (\<lambda>result. success result) taskResults);
          avgDuration =
            (if completedTasks > 0
             then rat_of_int (foldl (\<lambda>sum result. sum + or_number (duration result) 0)
                                0 taskResults)
                  / rat_of_nat completedTasks
             else 0)
      in \<lparr>totalAgents = total,
          availableAgents = available,
          busyAgents = busy,
          offlineAgents = offline,
          byDomain = countByDomain agents,
          tasksCompleted = completedTasks,
          averageTaskDuration = avgDuration\<rparr>)"

text \<open>
  The mean the specification describes, for comparison: the sum of the durations of the
  successful results over their number, and \<open>0\<close> when there is none.
\<close>

definition spec_meanSuccessfulDuration :: "TaskResult list \<Rightarrow> rat" where
  "spec_meanSuccessfulDuration taskResults =
     (let successful = filter (\<lambda>result. success result) taskResults
      in if successful = [] then 0
         else rat_of_int (sum_list (map (\<lambda>result. or_number (duration result) 0) successful))
              / rat_of_nat (length successful))"

record SwarmHealth =
  healthy :: bool
  activeAgents :: nat
  totalCapacity :: nat
  currentLoad :: nat
  loadPercentage :: rat
  recommendedActions :: "string list"

text \<open>\<^verbatim>\<open>Math.round\<close> rounds to the nearest integer, halves upwards.\<close>

definition math_round :: "rat \<Rightarrow> int" where
  "math_round x = \<lfloor>x + 1 / 2\<rfloor>"

definition swarm_loadPercentage :: "Agent list \<Rightarrow> rat" where
  "swarm_loadPercentage agents =
     (let totalCapacity = length agents;
          currentLoad = length (filter (\<lambda>agent. agent_status agent = Busy) agents)
      in if totalCapacity > 0
         then (rat_of_nat currentLoad / rat_of_nat totalCapacity) * 100 else 0)"

definition nearCapacityAdvisory :: string where
  "nearCapacityAdvisory = ''Agent swarm near capacity - consider adding more agents''"

definition lowUtilizationAdvisory :: string where
  "lowUtilizationAdvisory = ''Low agent utilization - consider reducing agent pool''"

definition unhealthyAdvisory :: string where
  "unhealthyAdvisory = ''Agent swarm unhealthy - investigate agent failures''"

definition getSwarmHealth :: "Agent list \<Rightarrow> SwarmHealth" where
  "getSwarmHealth agents =
     (let activeAgents = length (filter (\<lambda>agent. agent_status agent = Idle
                                              \<or> agent_status agent = Busy) agents);
          totalCapacity = length agents;
          currentLoad = length (filter (\<lambda>agent. agent_status agent = Busy) agents);
          loadPercentage = swarm_loadPercentage agents;
          healthy = (loadPercentage < 80 \<and> activeAgents > 0);
          actions0 = [];
          actions1 = (if loadPercentage > 90
                      then actions0 @ [nearCapacityAdvisory] else actions0);
          actions2 = (if rat_of_nat activeAgents < rat_of_nat totalCapacity * (1 / 2)
                      then actions1 @ [lowUtilizationAdvisory] else actions1);
          actions3 = (if \<not> healthy then actions2 @ [unhealthyAdvisory] else actions2)
      in \<lparr>healthy = healthy,
          activeAgents = activeAgents,
          totalCapacity = totalCapacity,
          currentLoad = currentLoad,
          loadPercentage = rat_of_int (math_round (loadPercentage * 100)) / 100,
          recommendedActions = actions3\<rparr>)"

subsection \<open>The scheduler behind the facade\<close>

text \<open>
  Modelled from the spec: \<^verbatim>\<open>orchestrator.executeTask\<close> of the module
  \<^verbatim>\<open>./agents/orchestrator\<close>, which is not among the sources.  The definition follows the
  section on the task scheduler: the candidates are the idle agents whose domain is the
  task's; the agent of highest priority is chosen, and among equals the one with the
  fewest completed tasks; with no candidate the call fails at once with
  \<^verbatim>\<open>NoAgentAvailable\<close>; otherwise the agent's executor runs under the timeout, a success
  completes the task, and a failure or a timeout is tried again from the selection while
  retries remain.  The executor is a parameter: it tells the outcome of an attempt and the
  milliseconds it took.  The chosen agent is busy during the attempt and idle again after
  it, so every attempt selects from the same registry.
\<close>

datatype execution = Succeeded payload int | Errored string int | TimedOut int

type_synonym executor = "Agent \<Rightarrow> Task \<Rightarrow> int option \<Rightarrow> nat \<Rightarrow> execution"

text \<open>
  Modelled from the spec: step 1 of \<^verbatim>\<open>execute\<close>, the idle agents of the task's domain.
\<close>

definition candidateAgents :: "Agent list \<Rightarrow> Task \<Rightarrow> Agent list" where
  "candidateAgents agents task =
     filter (\<lambda>agent. agent_domain agent = task_domain task \<and> agent_status agent = Idle) agents"

text \<open>
  Modelled from the spec: the tie-break of step 2, higher priority first and then fewer
  completed tasks.
\<close>

definition preferred :: "(string \<Rightarrow> nat) \<Rightarrow> Agent \<Rightarrow> Agent \<Rightarrow> bool" where
  "preferred completed a b =
     (agent_priority a > agent_priority b \<or>
      (agent_priority a = agent_priority b \<and> completed (agent_id a) < completed (agent_id b)))"

text \<open>
  Modelled from the spec: the choice among the candidates, none when there is no candidate.
\<close>

definition selectAgent :: "(string \<Rightarrow> nat) \<Rightarrow> Agent list \<Rightarrow> Agent option" where
  "selectAgent completed candidates =
     (case candidates of
        [] \<Rightarrow> None
      | first # others \<Rightarrow>
          Some (foldl (\<lambda>best agent. if preferred completed agent best then agent else best)
                  first others))"

text \<open>
  Modelled from the spec: the result of a task that ends without success, with the fields
  that \<^verbatim>\<open>submitTask\<close> reads.
\<close>

definition failedResult :: "string option \<Rightarrow> int option \<Rightarrow> int option \<Rightarrow> string \<Rightarrow> TaskResult" where
  "failedResult agent started took message =
     \<lparr>success = False,
      agentId = agent,
      result_startTime = started,
      result_endTime = (case (started, took) of (Some s, Some t) \<Rightarrow> Some (s + t) | _ \<Rightarrow> None),
      duration = took,
      result_output = None,
      result_error = Some message\<rparr>"

text \<open>
  Modelled from the spec: steps 3 to 8.  \<open>tried\<close> counts the attempts made so far and
  gives the backoff before the next one (250 ms doubling, at most 4 s); the last argument
  is the number of retries left.
\<close>

fun attempt ::
  "executor \<Rightarrow> (string \<Rightarrow> nat) \<Rightarrow> Agent list \<Rightarrow> int \<Rightarrow> Task \<Rightarrow> int option \<Rightarrow> nat \<Rightarrow> nat
     \<Rightarrow> TaskResult" where
  "attempt run completed agents now task timeout tried 0 =
     (case selectAgent completed (candidateAgents agents task) of
        None \<Rightarrow> failedResult None None None ''NoAgentAvailable''
      | Some agent \<Rightarrow>
          (case run agent task timeout tried of
             Succeeded out took \<Rightarrow>
               \<lparr>success = True, agentId = Some (agent_id agent),
                result_startTime = Some now, result_endTime = Some (now + took),
                duration = Some took, result_output = Some out, result_error = None\<rparr>
           | Errored message took \<Rightarrow>
               failedResult (Some (agent_id agent)) (Some now) (Some took) message
           | TimedOut took \<Rightarrow>
               failedResult (Some (agent_id agent)) (Some now) (Some took) ''Timeout''))"
| "attempt run completed agents now task timeout tried (Suc retries) =
     (case selectAgent completed (candidateAgents agents task) of
        None \<Rightarrow> failedResult None None None ''NoAgentAvailable''
      | Some agent \<Rightarrow>
          (case run agent task timeout tried of
             Succeeded out took \<Rightarrow>
               \<lparr>success = True, agentId = Some (agent_id agent),
                result_startTime = Some now, result_endTime = Some (now + took),
                duration = Some took, result_output = Some out, result_error = None\<rparr>
           | Errored message took \<Rightarrow>
               attempt run completed agents (now + took + min (250 * 2 ^ tried) 4000)
                 task timeout (Suc tried) retries
           | TimedOut took \<Rightarrow>
               attempt run completed agents (now + took + min (250 * 2 ^ tried) 4000)
                 task timeout (Suc tried) retries))"

text \<open>
  Modelled from the spec: \<^verbatim>\<open>execute(task, {timeoutMs, maxRetries})\<close>.
\<close>

definition executeTask ::
  "executor \<Rightarrow> (string \<Rightarrow> nat) \<Rightarrow> Agent list \<Rightarrow> int \<Rightarrow> Task \<Rightarrow> ExecuteOptions \<Rightarrow> TaskResult" where
  "executeTask run completed agents now task options =
     attempt run completed agents now task (option_timeout options) 0
       (nat (option_maxRetries options))"

section \<open>The evolution cycle\<close>

text \<open>
  The orchestrator's fields that the cycle reads and writes.  \<^verbatim>\<open>learningCycles\<close> is a
  counter that starts at \<open>0\<close> and only grows by one, so it is a natural number.
\<close>

record Orchestrator =
  isInitialized :: bool
  consciousnessLevel :: rat
  learningCycles :: nat
  evolutionRate :: rat

text \<open>
  The part of the performance snapshot that the later phases read.  The consciousness
  metric comes from the internal state tracker, a parameter here; the other numbers are
  the constants of \<^verbatim>\<open>analyzeSystemPerformance\<close>.
\<close>

record SystemPerformance =
  consciousness_cqm :: rat
  memory_successRate :: rat
  security_keys :: int
  learning_cycles :: nat
  learning_evolutionRate :: rat

definition analyzeSystemPerformance :: "rat \<Rightarrow> Orchestrator \<Rightarrow> SystemPerformance" where
  "analyzeSystemPerformance identityScore orchestrator =
     \<lparr>consciousness_cqm = identityScore,
      memory_successRate = 843 / 1000,
      security_keys = 10,
      learning_cycles = learningCycles orchestrator,
      learning_evolutionRate = evolutionRate orchestrator\<rparr>"

datatype opportunity_priority = Low | Medium | High | Critical

record OptimizationOpportunity =
  opportunity_layer :: string
  opportunity_type :: string
  opportunity_priority :: opportunity_priority
  opportunity_expectedImprovement :: rat

definition identifyOptimizationOpportunities ::
  "SystemPerformance \<Rightarrow> OptimizationOpportunity list" where
  "identifyOptimizationOpportunities systemAnalysis =
     (if consciousness_cqm systemAnalysis > 8 / 10
      then [\<lparr>opportunity_layer = ''consciousness'',
              opportunity_type = ''optimize_emergence_detection'',
              opportunity_priority = High, opportunity_expectedImprovement = 1 / 10\<rparr>]
      else []) @
     (if memory_successRate systemAnalysis < 85 / 100
      then [\<lparr>opportunity_layer = ''memory'',
              opportunity_type = ''improve_experience_quality'',
              opportunity_priority = High, opportunity_expectedImprovement = 8 / 100\<rparr>]
      else []) @
     (if learning_evolutionRate systemAnalysis < 15 / 100
      then [\<lparr>opportunity_layer = ''learning'',
              opportunity_type = ''accelerate_evolution'',
              opportunity_priority = High, opportunity_expectedImprovement = 2 / 10\<rparr>]
      else []) @
     (if security_keys systemAnalysis > 15
      then [\<lparr>opportunity_layer = ''security'',
              opportunity_type = ''consolidate_keys'',
              opportunity_priority = Medium, opportunity_expectedImprovement = 5 / 100\<rparr>]
      else [])"

record EvolutionStrategy =
  strategy_layer :: string
  strategy_type :: string
  strategy_confidence :: rat
  strategy_expectedImprovement :: rat

definition generateEvolutionStrategies ::
  "OptimizationOpportunity list \<Rightarrow> EvolutionStrategy list" where
  "generateEvolutionStrategies opportunities =
     map (\<lambda>opp. \<lparr>strategy_layer = opportunity_layer opp,
                  strategy_type = opportunity_type opp,
                  strategy_confidence = 9 / 10,
                  strategy_expectedImprovement = opportunity_expectedImprovement opp\<rparr>)
       opportunities"

text \<open>
  Every handler of \<^verbatim>\<open>applyEvolutionStrategies\<close> only prints a line, and a layer with no
  handler falls through the \<^verbatim>\<open>switch\<close>: each strategy counts as a success.
\<close>

record ApplyResults =
  results_success :: nat
  results_failed :: nat
  results_improvements :: "EvolutionStrategy list"

definition applyEvolutionStrategies :: "EvolutionStrategy list \<Rightarrow> ApplyResults" where
  "applyEvolutionStrategies strategies =
     foldl (\<lambda>results strategy.
              results\<lparr>results_success := results_success results + 1,
                      results_improvements := results_improvements results @ [strategy]\<rparr>)
       \<lparr>results_success = 0, results_failed = 0, results_improvements = []\<rparr> strategies"

record Evaluation =
  improvementPercentage :: rat
  evaluation_confidence :: rat
  successfulStrategies :: nat
  failedStrategies :: nat

definition evaluateEvolution :: "ApplyResults \<Rightarrow> Evaluation" where
  "evaluateEvolution results =
     \<lparr>improvementPercentage = 153 / 10,
      evaluation_confidence = 85 / 100,
      successfulStrategies = results_success results,
      failedStrategies = results_failed results\<rparr>"

definition updateInternalStateBasedOnEvolution :: "Evaluation \<Rightarrow> Orchestrator \<Rightarrow> Orchestrator" where
  "updateInternalStateBasedOnEvolution evaluation orchestrator =
     orchestrator\<lparr>evolutionRate := improvementPercentage evaluation\<rparr>"

text \<open>
  \<^verbatim>\<open>executeEvolutionCycle\<close> is an asynchronous method.  A call runs at once up to its
  first \<^verbatim>\<open>await\<close>: it increments \<^verbatim>\<open>learningCycles\<close> and takes the performance snapshot.
  The remaining phases run once the awaited promises are settled; the last one writes the
  evolution rate.  A cycle that has begun and not yet finished is kept, with its snapshot,
  in the list of running cycles.  The method tests no flag before it increments.
\<close>

datatype timer_callback = CallExecuteEvolutionCycle | CallCheckForEnhancerUpdates

record Timer =
  timer_interval :: int
  timer_callback :: timer_callback

record Runtime =
  orchestrator :: Orchestrator
  runningCycles :: "SystemPerformance list"
  timers :: "Timer list"

definition executeEvolutionCycle_begin :: "rat \<Rightarrow> Runtime \<Rightarrow> Runtime" where
  "executeEvolutionCycle_begin identityScore rt =
     (let orchestrator1 = (orchestrator rt)
            \<lparr>learningCycles := learningCycles (orchestrator rt) + 1\<rparr>;
          systemAnalysis = analyzeSystemPerformance identityScore orchestrator1
      in rt\<lparr>orchestrator := orchestrator1,
            runningCycles := runningCycles rt @ [systemAnalysis]\<rparr>)"

definition executeEvolutionCycle_finish :: "Runtime \<Rightarrow> Runtime" where
  "executeEvolutionCycle_finish rt =
     (case runningCycles rt of
        [] \<Rightarrow> rt
      | systemAnalysis # others \<Rightarrow>
          (let optimizationOpportunities = identifyOptimizationOpportunities systemAnalysis;
               evolutionStrategies = generateEvolutionStrategies optimizationOpportunities;
               evolutionResults = applyEvolutionStrategies evolutionStrategies;
               evaluation = evaluateEvolution evolutionResults
           in rt\<lparr>orchestrator :=
                    updateInternalStateBasedOnEvolution evaluation (orchestrator rt),
                 runningCycles := others\<rparr>))"

subsection \<open>The members of the class and the timers they install\<close>

text \<open>
  The class body declares the name \<^verbatim>\<open>startEvolutionCycle\<close> twice: first the private
  method that calls \<^verbatim>\<open>setInterval\<close> with a callback running \<^verbatim>\<open>executeEvolutionCycle\<close>
  every 60000 ms, and near the end of the class a public method that returns a status
  object and does nothing else.  \<^verbatim>\<open>startDualLLMCoordination\<close> installs a timer of
  120000 ms whose callback runs \<^verbatim>\<open>checkForEnhancerUpdates\<close>, which only prints a line.
  \<^verbatim>\<open>pauseEvolution\<close> only prints a line.

  A class body defines its methods on the prototype one after the other, in the order of
  the declarations, so a later declaration of a name replaces an earlier one.
\<close>

datatype method_body =
    InstallEvolutionTimer
  | InstallCoordinationTimer
  | ReturnEvolutionStatus
  | PrintEvolutionPaused

definition classMembers :: "(string \<times> method_body) list" where
  "classMembers =
     [(''startEvolutionCycle'', InstallEvolutionTimer),
      (''startDualLLMCoordination'', InstallCoordinationTimer),
      (''startEvolutionCycle'', ReturnEvolutionStatus),
      (''pauseEvolution'', PrintEvolutionPaused)]"

definition prototype :: "string \<rightharpoonup> method_body" where
  "prototype = foldl (\<lambda>members (name, body). members(name \<mapsto> body)) Map.empty classMembers"

fun runMethod :: "method_body \<Rightarrow> Runtime \<Rightarrow> Runtime" where
  "runMethod InstallEvolutionTimer rt =
     rt\<lparr>timers := timers rt @
          [\<lparr>timer_interval = 60000, timer_callback = CallExecuteEvolutionCycle\<rparr>]\<rparr>"
| "runMethod InstallCoordinationTimer rt =
     rt\<lparr>timers := timers rt @
          [\<lparr>timer_interval = 120000, timer_callback = CallCheckForEnhancerUpdates\<rparr>]\<rparr>"
| "runMethod ReturnEvolutionStatus rt = rt"
| "runMethod PrintEvolutionPaused rt = rt"

text \<open>
  A call \<^verbatim>\<open>this.name()\<close> runs the member that the prototype holds under the name; calling a
  name that the prototype does not hold throws a \<^verbatim>\<open>TypeError\<close>.
\<close>

definition callMember :: "string \<Rightarrow> Runtime \<Rightarrow> js_error + Runtime" where
  "callMember name rt =
     (case prototype name of
        None \<Rightarrow> Inl (TypeError name)
      | Some body \<Rightarrow> Inr (runMethod body rt))"

text \<open>
  \<^verbatim>\<open>initialize\<close> returns at once when the orchestrator is initialised.  Otherwise it
  initialises the six layers (calls into other modules, which leave the fields and the
  timers of the orchestrator alone), then calls \<^verbatim>\<open>this.startEvolutionCycle()\<close> and
  \<^verbatim>\<open>this.startDualLLMCoordination()\<close>, and sets \<^verbatim>\<open>isInitialized\<close>.  An error ends the
  initialisation.
\<close>

definition initialize :: "Runtime \<Rightarrow> js_error + Runtime" where
  "initialize rt =
     (if isInitialized (orchestrator rt) then Inr rt
      else
        (case callMember ''startEvolutionCycle'' rt of
           Inl e \<Rightarrow> Inl e
         | Inr rt1 \<Rightarrow>
             (case callMember ''startDualLLMCoordination'' rt1 of
                Inl e \<Rightarrow> Inl e
              | Inr rt2 \<Rightarrow>
                  Inr (rt2\<lparr>orchestrator := (orchestrator rt2)\<lparr>isInitialized := True\<rparr>\<rparr>))))"

text \<open>
  What can happen to an orchestrator afterwards: the timer at some position fires and its
  callback runs (a position with no timer is no event); a running cycle finishes; the
  route \<^verbatim>\<open>/api/llm2/evolution/start\<close> calls \<^verbatim>\<open>omegaOrchestrator.startEvolutionCycle()\<close>
  inside a \<^verbatim>\<open>try\<close> block.  A firing carries the identity score that the internal state
  tracker reports at that moment.
\<close>

datatype event = TimerFires nat rat | CycleFinishes | StartRouteCalled

fun step :: "Runtime \<Rightarrow> event \<Rightarrow> Runtime" where
  "step rt (TimerFires position identityScore) =
     (if position < length (timers rt) then
        (case timer_callback (timers rt ! position) of
           CallExecuteEvolutionCycle \<Rightarrow> executeEvolutionCycle_begin identityScore rt
         | CallCheckForEnhancerUpdates \<Rightarrow> rt)
      else rt)"
| "step rt CycleFinishes = executeEvolutionCycle_finish rt"
| "step rt StartRouteCalled =
     (case callMember ''startEvolutionCycle'' rt of Inl e \<Rightarrow> rt | Inr rt1 \<Rightarrow> rt1)"

definition run_events :: "Runtime \<Rightarrow> event list \<Rightarrow> Runtime" where
  "run_events rt events = foldl step rt events"

text \<open>The orchestrator as its field initialisers leave it, with no timer installed.\<close>

definition initialRuntime :: Runtime where
  "initialRuntime =
     \<lparr>orchestrator = \<lparr>isInitialized = False, consciousnessLevel = 0,
                       learningCycles = 0, evolutionRate = 0\<rparr>,
      runningCycles = [],
      timers = []\<rparr>"

text \<open>The orchestrator after \<^verbatim>\<open>initialize\<close>: one timer, the one of the coordination check.\<close>

definition initializedRuntime :: Runtime where
  "initializedRuntime =
     \<lparr>orchestrator = \<lparr>isInitialized = True, consciousnessLevel = 0,
                       learningCycles = 0, evolutionRate = 0\<rparr>,
      runningCycles = [],
      timers = [\<lparr>timer_interval = 120000, timer_callback = CallCheckForEnhancerUpdates\<rparr>]\<rparr>"

section \<open>Concrete inputs\<close>

text \<open>
  A file service with a target file and the enhanced content that goes with the ready
  file \<^verbatim>\<open>a.ts.ready\<close>, and a coordination record in which the peer is active, holds
  that ready file, and both heartbeats were written at millisecond \<open>1000\<close>.
\<close>

definition example_files :: files where
  "example_files = [''a.ts'' \<mapsto> ''old'', ''a.ts.enhancer.ts'' \<mapsto> ''import x'']"

definition example_coordination :: CoordinationData where
  "example_coordination =
     \<lparr>version = ''1.0'',
      lastUpdate = 1000,
      systemStatus = Active,
      enhancers =
        \<lparr>omeaga_system = \<lparr>activeFiles = [], lastHeartbeat = 1000, status = EnhancerActive\<rparr>,
         other_enhancer = \<lparr>activeFiles = [''a.ts.ready''], lastHeartbeat = 1000,
                           status = EnhancerActive\<rparr>\<rparr>,
      mode = DualLLM,
      evolution =
        \<lparr>cycle = 0, evolution_status = EvolutionIdle,
         evolution_startTime = None, evolution_lastUpdate = None\<rparr>\<rparr>"

definition example_world :: World where
  "example_world =
     \<lparr>files = example_files, coordinationFile = Some example_coordination,
      printedRecords = []\<rparr>"

text \<open>Ten agents of one domain, nine of them busy and one idle.\<close>

definition example_agent :: "agent_status \<Rightarrow> Agent" where
  "example_agent s =
     \<lparr>agent_id = ''agent'', agent_name = ''Agent'', agent_domain = ''memory'',
      capabilities = [], agent_status = s, agent_priority = 1\<rparr>"

definition example_agents :: "Agent list" where
  "example_agents = replicate 9 (example_agent Busy) @ [example_agent Idle]"

text \<open>A successful task result of 10 ms and a failed one of 30 ms.\<close>

definition example_results :: "TaskResult list" where
  "example_results =
     [\<lparr>success = True, agentId = Some ''agent'', result_startTime = Some 0,
       result_endTime = Some 10, duration = Some 10,
       result_output = Some EmptyObject, result_error = None\<rparr>,
      \<lparr>success = False, agentId = Some ''agent'', result_startTime = Some 20,
       result_endTime = Some 50, duration = Some 30,
       result_output = None, result_error = Some ''failed''\<rparr>]"

text \<open>
  The submission \<^verbatim>\<open>{taskId: "t1", domain: "memory", priority: 5, timeoutMs: 2000,
  maxRetries: 1}\<close>, and the same with a retry budget of \<open>0\<close>.
\<close>

definition example_submission :: "int option \<Rightarrow> TaskSubmission" where
  "example_submission retries =
     \<lparr>taskId = ''t1'', taskDescription = ''store'', taskType = ''write'',
      domain = ''memory'', priority = 5, inputs = None, submission_context = None,
      timeoutMs = Some 2000, maxRetries = retries\<rparr>"

text \<open>
  An executor stub that fails every task and reports, as the duration, the retry budget it
  was called with.
\<close>

definition example_probe :: "Task \<Rightarrow> ExecuteOptions \<Rightarrow> TaskResult" where
  "example_probe task options =
     \<lparr>success = False, agentId = None, result_startTime = None, result_endTime = None,
      duration = Some (option_maxRetries options),
      result_output = None, result_error = Some ''probe''\<rparr>"

section \<open>Facts about the string primitives\<close>

lemma startsWith_iff: "startsWith s needle \<longleftrightarrow> (\<exists>q. s = needle @ q)"
proof
  assume "startsWith s needle"
  then have "s = needle @ drop (length needle) s"
    unfolding startsWith_def by (metis append_take_drop_id)
  then show "\<exists>q. s = needle @ q" ..
next
  assume "\<exists>q. s = needle @ q"
  then show "startsWith s needle" unfolding startsWith_def by auto
qed

lemma includes_iff: "str_includes s needle \<longleftrightarrow> (\<exists>p q. s = p @ needle @ q)"
proof (induction s)
  case Nil
  then show ?case by auto
next
  case (Cons c cs)
  show ?case
  proof
    assume "str_includes (c # cs) needle"
    then consider "startsWith (c # cs) needle" | "str_includes cs needle" by auto
    then show "\<exists>p q. c # cs = p @ needle @ q"
    proof cases
      case 1
      then obtain q where "c # cs = needle @ q" using startsWith_iff by blast
      then have "c # cs = [] @ needle @ q" by simp
      then show ?thesis by blast
    next
      case 2
      then obtain p q where "cs = p @ needle @ q" using Cons.IH by blast
      then have "c # cs = (c # p) @ needle @ q" by simp
      then show ?thesis by blast
    qed
  next
    assume "\<exists>p q. c # cs = p @ needle @ q"
    then obtain p q where pq: "c # cs = p @ needle @ q" by blast
    show "str_includes (c # cs) needle"
    proof (cases p)
      case Nil
      then have "startsWith (c # cs) needle" using pq startsWith_iff by auto
      then show ?thesis by simp
    next
      case (Cons a p')
      then have "cs = p' @ needle @ q" using pq by simp
      then have "str_includes cs needle" using Cons.IH by blast
      then show ?thesis by simp
    qed
  qed
qed

lemma includes_longer_needle:
  "str_includes s (needle @ rest) \<Longrightarrow> str_includes s needle"
proof -
  assume "str_includes s (needle @ rest)"
  then obtain p q where "s = p @ (needle @ rest) @ q" using includes_iff by blast
  then have "s = p @ needle @ (rest @ q)" by simp
  then show "str_includes s needle" using includes_iff by blast
qed

lemma no_export_no_export_default:
  "\<not> str_includes content ''export '' \<Longrightarrow> \<not> str_includes content ''export default''"
proof -
  have "''export default'' = ''export '' @ ''default''" by simp
  then show "\<not> str_includes content ''export '' \<Longrightarrow> \<not> str_includes content ''export default''"
    using includes_longer_needle by metis
qed

section \<open>Claims about validation\<close>

text \<open>
  C1 (as stated, refuted): the claim says that lacking the export marker alone is enough for
  rejection.  The content \<^verbatim>\<open>import x\<close> has an import marker, no export marker, and the
  source accepts it, because the first check fires only when both markers are missing.
\<close>

theorem C1_counterexample:
  "\<not> str_includes ''import x'' ''export '' \<and> valid (validateEnhancements ''import x'')"
  by (simp add: validateEnhancements_def startsWith_def)

text \<open>
  C1 (amended): validation rejects every content that lacks both the import marker and
  the export marker.  Lacking only one of them is not a reason for rejection: a content
  with an import marker and no export marker is accepted unless it contains the token
  \<^verbatim>\<open>undefined\<close>, and a content with an export marker and no import marker is accepted
  unless it contains that token or a double space together with \<^verbatim>\<open>export default\<close>.
  In general a content is valid exactly when it has at least one of the two markers and
  neither of the other two checks fires.
\<close>

theorem C1_validateEnhancements_markers:
  "(\<not> str_includes content ''import '' \<and> \<not> str_includes content ''export ''
      \<longrightarrow> \<not> valid (validateEnhancements content)) \<and>
   (str_includes content ''import '' \<and> \<not> str_includes content ''export ''
      \<longrightarrow> valid (validateEnhancements content) = (\<not> str_includes content ''undefined'')) \<and>
   (str_includes content ''export '' \<and> \<not> str_includes content ''import ''
      \<longrightarrow> valid (validateEnhancements content)
          = (\<not> (str_includes content ''  '' \<and> str_includes content ''export default'')
             \<and> \<not> str_includes content ''undefined'')) \<and>
   valid (validateEnhancements content)
     = ((str_includes content ''import '' \<or> str_includes content ''export '')
        \<and> \<not> (str_includes content ''  '' \<and> str_includes content ''export default'')
        \<and> \<not> str_includes content ''undefined'')"
proof (intro conjI impI)
  assume "\<not> str_includes content ''import '' \<and> \<not> str_includes content ''export ''"
  then show "\<not> valid (validateEnhancements content)"
    by (simp add: validateEnhancements_def Let_def)
next
  assume a: "str_includes content ''import '' \<and> \<not> str_includes content ''export ''"
  then have "\<not> str_includes content ''export default''"
    using no_export_no_export_default by blast
  with a show "valid (validateEnhancements content) = (\<not> str_includes content ''undefined'')"
    by (simp add: validateEnhancements_def Let_def)
next
  assume "str_includes content ''export '' \<and> \<not> str_includes content ''import ''"
  then show "valid (validateEnhancements content)
          = (\<not> (str_includes content ''  '' \<and> str_includes content ''export default'')
             \<and> \<not> str_includes content ''undefined'')"
    by (simp add: validateEnhancements_def Let_def)
next
  show "valid (validateEnhancements content)
     = ((str_includes content ''import '' \<or> str_includes content ''export '')
        \<and> \<not> (str_includes content ''  '' \<and> str_includes content ''export default'')
        \<and> \<not> str_includes content ''undefined'')"
    by (auto simp: validateEnhancements_def Let_def)
qed

theorem C1_validateEnhancements_markers_witness:
  "\<not> valid (validateEnhancements ''const x = 1;'') \<and>
   valid (validateEnhancements ''import x'') \<and>
   \<not> valid (validateEnhancements ''import undefined'') \<and>
   valid (validateEnhancements ''export x'') \<and>
   \<not> valid (validateEnhancements ''export default  x'')"
proof -
  have a: "\<not> str_includes ''const x = 1;'' ''import '' \<and> \<not> str_includes ''const x = 1;'' ''export ''"
    by (simp add: startsWith_def)
  have b: "str_includes ''import x'' ''import '' \<and> \<not> str_includes ''import x'' ''export ''"
    by (simp add: startsWith_def)
  have c: "str_includes ''import undefined'' ''import '' \<and> \<not> str_includes ''import undefined'' ''export ''"
    by (simp add: startsWith_def)
  have d: "str_includes ''export x'' ''export '' \<and> \<not> str_includes ''export x'' ''import ''"
    by (simp add: startsWith_def)
  have e: "str_includes ''export default  x'' ''export ''
           \<and> \<not> str_includes ''export default  x'' ''import ''"
    by (simp add: startsWith_def)
  have u1: "\<not> str_includes ''import x'' ''undefined''" by (simp add: startsWith_def)
  have u2: "\<not> \<not> str_includes ''import undefined'' ''undefined''" by (simp add: startsWith_def)
  have u3: "\<not> (str_includes ''export x'' ''  '' \<and> str_includes ''export x'' ''export default'')
            \<and> \<not> str_includes ''export x'' ''undefined''"
    by (simp add: startsWith_def)
  have u4: "\<not> (\<not> (str_includes ''export default  x'' ''  ''
                  \<and> str_includes ''export default  x'' ''export default'')
              \<and> \<not> str_includes ''export default  x'' ''undefined'')"
    by (simp add: startsWith_def)
  have w1: "\<not> valid (validateEnhancements ''const x = 1;'')"
    by (rule mp [OF C1_validateEnhancements_markers
                      [of "''const x = 1;''", THEN conjunct1] a])
  have w2: "valid (validateEnhancements ''import x'')"
    by (rule iffD2 [OF mp [OF C1_validateEnhancements_markers
                      [of "''import x''", THEN conjunct2, THEN conjunct1] b] u1])
  have w3: "\<not> valid (validateEnhancements ''import undefined'')"
    using u2 iffD1 [OF mp [OF C1_validateEnhancements_markers
                      [of "''import undefined''", THEN conjunct2, THEN conjunct1] c]]
    by (rule contrapos_nn)
  have w4: "valid (validateEnhancements ''export x'')"
    by (rule iffD2 [OF mp [OF C1_validateEnhancements_markers
                      [of "''export x''", THEN conjunct2, THEN conjunct2, THEN conjunct1] d] u3])
  have w5: "\<not> valid (validateEnhancements ''export default  x'')"
    using u4 iffD1 [OF mp [OF C1_validateEnhancements_markers
                      [of "''export default  x''", THEN conjunct2, THEN conjunct2,
                       THEN conjunct1] e]]
    by (rule contrapos_nn)
  show ?thesis using w1 w2 w3 w4 w5 by (intro conjI)
qed

section \<open>Claims about the apply step\<close>

text \<open>
  C2 (as stated, refuted): the claim says that the backup is written before the target is
  overwritten, so that no intermediate state has the target overwritten and the backup
  missing.  For the target \<^verbatim>\<open>a.ts\<close> with content \<^verbatim>\<open>old\<close>, the state between the two
  writes already holds the new content at the target and nothing at \<^verbatim>\<open>a.ts.backup\<close>.
\<close>

theorem C2_counterexample:
  "(applyEnhancements_trace 61000 ''a.ts'' ''import x'' example_files ! 1) ''a.ts''
      = Some ''import x'' \<and>
   (applyEnhancements_trace 61000 ''a.ts'' ''import x'' example_files ! 1) ''a.ts.backup''
      = None"
  by (simp add: applyEnhancements_trace_def Let_def writeFile_def example_files_def)

text \<open>
  C2 (amended): the apply step reads the pre-patch content of the target before any write
  and then performs two separate writes.  The first overwrites the target with the new
  content and leaves the backup path as it was; the second writes the content read at the
  start to the backup path.  After both writes the target holds the new content and the
  backup holds the pre-patch content.
\<close>

theorem C2_applyEnhancements_order:
  "length (applyEnhancements_trace now originalPath enhancedContent fs) = 3 \<and>
   applyEnhancements_trace now originalPath enhancedContent fs ! 0 = fs \<and>
   (applyEnhancements_trace now originalPath enhancedContent fs ! 1) originalPath
      = Some enhancedContent \<and>
   (applyEnhancements_trace now originalPath enhancedContent fs ! 1) (originalPath @ ''.backup'')
      = fs (originalPath @ ''.backup'') \<and>
   (applyEnhancements_trace now originalPath enhancedContent fs ! 2) originalPath
      = Some enhancedContent \<and>
   (applyEnhancements_trace now originalPath enhancedContent fs ! 2) (originalPath @ ''.backup'')
      = Some (readFile fs originalPath) \<and>
   applyEnhancements now originalPath enhancedContent fs
      = applyEnhancements_trace now originalPath enhancedContent fs ! 2"
  by (simp add: applyEnhancements_def applyEnhancements_trace_def Let_def writeFile_def)

section \<open>Claims about the evolution cycle\<close>

lemma begin_counts:
  "learningCycles (orchestrator (executeEvolutionCycle_begin x rt))
     = learningCycles (orchestrator rt) + 1"
  "length (runningCycles (executeEvolutionCycle_begin x rt)) = length (runningCycles rt) + 1"
  "timers (executeEvolutionCycle_begin x rt) = timers rt"
  by (simp_all add: executeEvolutionCycle_begin_def Let_def)

lemma finish_keeps_counter:
  "learningCycles (orchestrator (executeEvolutionCycle_finish rt))
     = learningCycles (orchestrator rt)"
  "length (runningCycles (executeEvolutionCycle_finish rt)) \<le> length (runningCycles rt)"
  "timers (executeEvolutionCycle_finish rt) = timers rt"
  by (simp_all add: executeEvolutionCycle_finish_def updateInternalStateBasedOnEvolution_def
        Let_def split: list.splits)

text \<open>
  The body of a cycle has no guard: two calls of \<^verbatim>\<open>executeEvolutionCycle\<close> with no
  completion between them increment the counter twice and leave two more cycles running.
\<close>

lemma unguarded_cycle_body:
  "learningCycles (orchestrator
     (executeEvolutionCycle_begin y (executeEvolutionCycle_begin x rt)))
     = learningCycles (orchestrator rt) + 2"
  "length (runningCycles (executeEvolutionCycle_begin y (executeEvolutionCycle_begin x rt)))
     = length (runningCycles rt) + 2"
  by (simp_all add: begin_counts)

lemma prototype_members:
  "prototype ''startEvolutionCycle'' = Some ReturnEvolutionStatus"
  "prototype ''startDualLLMCoordination'' = Some InstallCoordinationTimer"
  by (simp_all add: prototype_def classMembers_def)

lemma initialize_installs_one_timer: "initialize initialRuntime = Inr initializedRuntime"
  by (simp add: initialize_def callMember_def prototype_members initialRuntime_def
        initializedRuntime_def)

lemma step_without_evolution_timer:
  assumes "CallExecuteEvolutionCycle \<notin> timer_callback ` set (timers rt)"
  shows "timers (step rt e) = timers rt"
    and "learningCycles (orchestrator (step rt e)) = learningCycles (orchestrator rt)"
    and "length (runningCycles (step rt e)) \<le> length (runningCycles rt)"
proof -
  have other: "timer_callback (timers rt ! position) = CallCheckForEnhancerUpdates"
    if "position < length (timers rt)" for position
  proof -
    have "timer_callback (timers rt ! position) \<in> timer_callback ` set (timers rt)"
      using that by simp
    then have "timer_callback (timers rt ! position) \<noteq> CallExecuteEvolutionCycle"
      using assms by metis
    then show ?thesis by (cases "timer_callback (timers rt ! position)") simp_all
  qed
  show "timers (step rt e) = timers rt"
    by (cases e) (simp_all add: other finish_keeps_counter callMember_def prototype_members)
  show "learningCycles (orchestrator (step rt e)) = learningCycles (orchestrator rt)"
    by (cases e) (simp_all add: other finish_keeps_counter callMember_def prototype_members)
  show "length (runningCycles (step rt e)) \<le> length (runningCycles rt)"
    by (cases e) (simp_all add: other finish_keeps_counter callMember_def prototype_members)
qed

lemma run_without_evolution_timer:
  "CallExecuteEvolutionCycle \<notin> timer_callback ` set (timers rt) \<Longrightarrow>
   timers (run_events rt events) = timers rt \<and>
   learningCycles (orchestrator (run_events rt events)) = learningCycles (orchestrator rt) \<and>
   length (runningCycles (run_events rt events)) \<le> length (runningCycles rt)"
proof (induction events arbitrary: rt)
  case Nil
  then show ?case by (simp add: run_events_def)
next
  case (Cons e events)
  have t: "timers (step rt e) = timers rt"
    and c: "learningCycles (orchestrator (step rt e)) = learningCycles (orchestrator rt)"
    and r: "length (runningCycles (step rt e)) \<le> length (runningCycles rt)"
    using step_without_evolution_timer [OF Cons.prems] by simp_all
  have "CallExecuteEvolutionCycle \<notin> timer_callback ` set (timers (step rt e))"
    using Cons.prems t by simp
  from Cons.IH [OF this] t c r show ?case
    by (simp add: run_events_def)
qed


section \<open>Claims about the coordination record\<close>

lemma updateHeartbeat_throws:
  "updateHeartbeat now w = (Inl (ReferenceError ''coordinationData''), w)"
  by (simp add: updateHeartbeat_def resolve_def Let_def)

text \<open>
  C4 (the source at a failing input): the claim says that a heartbeat persists a record
  whose own heartbeat and last update are the current time.  On a record whose heartbeat
  was written at millisecond 1000, the heartbeat step at millisecond 61000 ends with a
  \<^verbatim>\<open>ReferenceError\<close> for \<^verbatim>\<open>coordinationData\<close> before anything is written: the stored
  record is the one from before and its heartbeat is still 1000.
\<close>

theorem C4_updateHeartbeat_failing_input:
  "updateHeartbeat 61000 example_world
     = (Inl (ReferenceError ''coordinationData''), example_world) \<and>
   lastHeartbeat (omeaga_system (enhancers
     (readCoordinationFile 61000 (snd (updateHeartbeat 61000 example_world))))) = 1000"
  by (simp add: updateHeartbeat_throws readCoordinationFile_def example_world_def
        example_coordination_def)

lemma conflict_iff:
  "reportsConflict (checkForConflicts now w) \<longleftrightarrow>
     status (other_enhancer (enhancers (readCoordinationFile now w))) = EnhancerActive \<and>
     now - lastHeartbeat (other_enhancer (enhancers (readCoordinationFile now w))) < 300000 \<and>
     activeFiles (other_enhancer (enhancers (readCoordinationFile now w))) \<noteq> []"
  by (auto simp: reportsConflict_def checkForConflicts_def Let_def)

text \<open>
  C8: for a stored coordination record whose peer has heartbeat \<open>T\<close>, status active and
  at least one active file, the conflict check at \<open>T + 250000\<close> reports a conflict and the
  check at \<open>T + 301000\<close> does not; at any time \<open>now\<close> it reports one exactly when
  \<open>now - T < 300000\<close>.
\<close>

theorem C8_checkForConflicts_staleness:
  assumes "coordinationFile w = Some coordination"
    and "lastHeartbeat (other_enhancer (enhancers coordination)) = T"
    and "status (other_enhancer (enhancers coordination)) = EnhancerActive"
    and "activeFiles (other_enhancer (enhancers coordination)) \<noteq> []"
  shows "reportsConflict (checkForConflicts (T + 250000) w) \<and>
         \<not> reportsConflict (checkForConflicts (T + 301000) w) \<and>
         reportsConflict (checkForConflicts now w) = (now - T < 300000)"
  using assms by (simp add: conflict_iff readCoordinationFile_def)

theorem C8_checkForConflicts_staleness_witness:
  "reportsConflict (checkForConflicts 251000 example_world) \<and>
   \<not> reportsConflict (checkForConflicts 302000 example_world) \<and>
   \<not> reportsConflict (checkForConflicts 301000 example_world) \<and>
   reportsConflict (checkForConflicts 300999 example_world)"
proof -
  have a: "coordinationFile example_world = Some example_coordination"
    by (simp add: example_world_def)
  have b: "lastHeartbeat (other_enhancer (enhancers example_coordination)) = 1000"
    by (simp add: example_coordination_def)
  have c: "status (other_enhancer (enhancers example_coordination)) = EnhancerActive"
    by (simp add: example_coordination_def)
  have d: "activeFiles (other_enhancer (enhancers example_coordination)) \<noteq> []"
    by (simp add: example_coordination_def)
  show ?thesis
    using C8_checkForConflicts_staleness [OF a b c d, of 301000]
          C8_checkForConflicts_staleness [OF a b c d, of 300999]
    by simp
qed

section \<open>Claims about processing a ready file\<close>

lemma removeFileFromCoordination_state:
  "snd (removeFileFromCoordination now filePath w) = w"
  by (simp add: removeFileFromCoordination_def resolve_def Let_def)

lemma removeFileFromCoordination_result:
  "removeFileFromCoordination now filePath v = (r, v') \<Longrightarrow> v' = v"
  using removeFileFromCoordination_state [of now filePath v] by simp

lemma processReadyFile_coordination_unchanged:
  "coordinationFile (fst (processReadyFile now filePath w)) = coordinationFile w"
  by (auto simp: processReadyFile_def Let_def split: prod.splits sum.splits
        dest!: removeFileFromCoordination_result)

lemma example_paths:
  "replace ''a.ts.ready'' ''.ready'' ''.enhancer.ts'' = ''a.ts.enhancer.ts''"
  "replace ''a.ts.ready'' ''.ready'' [] = ''a.ts''"
  by (simp_all add: startsWith_def)

lemma example_valid: "valid (validateEnhancements ''import x'')"
  by (simp add: validateEnhancements_def startsWith_def)

text \<open>
  C9 (the source at a failing input): the claim says that after a valid artifact has been
  processed the backup holds the pre-patch content, the target holds the new content, and
  the artifact's path is gone from the peer's active files in the stored record.  For the
  ready file \<^verbatim>\<open>a.ts.ready\<close> the two files are as claimed, but removing the path ends
  with a \<^verbatim>\<open>ReferenceError\<close> for \<^verbatim>\<open>coordinationData\<close>, which the \<^verbatim>\<open>catch\<close> of
  \<^verbatim>\<open>processReadyFile\<close> prints: the stored record is unchanged and still lists the path.
\<close>

theorem C9_processReadyFile_failing_input:
  "files (fst (processReadyFile 61000 ''a.ts.ready'' example_world)) ''a.ts''
     = Some ''import x'' \<and>
   files (fst (processReadyFile 61000 ''a.ts.ready'' example_world)) ''a.ts.backup''
     = Some ''old'' \<and>
   coordinationFile (fst (processReadyFile 61000 ''a.ts.ready'' example_world))
     = Some example_coordination \<and>
   activeFiles (other_enhancer (enhancers example_coordination)) = [''a.ts.ready''] \<and>
   snd (processReadyFile 61000 ''a.ts.ready'' example_world)
     = [ProcessingReadyFile ''a.ts.ready'', EnhancementsValidated ''a.ts.ready'',
        FailedToProcess ''a.ts.ready'' (ReferenceError ''coordinationData'')]"
proof -
  have content: "readFile (files example_world) ''a.ts.enhancer.ts'' = ''import x''"
    by (simp add: readFile_def example_world_def example_files_def)
  have files_after:
    "applyEnhancements 61000 ''a.ts'' ''import x'' (files example_world)
       = example_files(''a.ts'' \<mapsto> ''import x'', ''a.ts.backup'' \<mapsto> ''old'')"
    by (simp add: applyEnhancements_def applyEnhancements_trace_def Let_def writeFile_def
          readFile_def example_world_def example_files_def)
  have remove:
    "removeFileFromCoordination 61000 ''a.ts.ready''
       (example_world\<lparr>files := example_files(''a.ts'' \<mapsto> ''import x'', ''a.ts.backup'' \<mapsto> ''old'')\<rparr>)
     = (Inl (ReferenceError ''coordinationData''),
        example_world\<lparr>files := example_files(''a.ts'' \<mapsto> ''import x'', ''a.ts.backup'' \<mapsto> ''old'')\<rparr>)"
    by (simp add: removeFileFromCoordination_def readCoordinationFile_def resolve_def Let_def
          example_world_def example_coordination_def)
  have run: "processReadyFile 61000 ''a.ts.ready'' example_world
      = (example_world\<lparr>files := example_files(''a.ts'' \<mapsto> ''import x'', ''a.ts.backup'' \<mapsto> ''old'')\<rparr>,
         [ProcessingReadyFile ''a.ts.ready'', EnhancementsValidated ''a.ts.ready'',
          FailedToProcess ''a.ts.ready'' (ReferenceError ''coordinationData'')])"
    by (simp add: processReadyFile_def Let_def example_paths content example_valid
          files_after remove del: replace.simps)
  show ?thesis
    by (simp add: run) (simp add: example_world_def example_coordination_def)
qed

section \<open>Claims about the agentic facade\<close>

lemma attempt_no_candidate:
  "candidateAgents agents task = [] \<Longrightarrow>
   attempt run completed agents now task tmo tried retries
     = failedResult None None None ''NoAgentAvailable''"
  by (cases retries) (simp_all add: selectAgent_def)

lemma candidateAgents_empty:
  "\<forall>agent \<in> set agents. \<not> (agent_domain agent = domain submission \<and> agent_status agent = Idle)
   \<Longrightarrow> candidateAgents agents (submitTask_task submission) = []"
  by (auto simp: candidateAgents_def submitTask_task_def filter_empty_conv)



lemma filter_busy_example:
  "filter (\<lambda>agent. agent_status agent = Busy) example_agents = replicate 9 (example_agent Busy)"
  "filter (\<lambda>agent. agent_status agent = Idle \<or> agent_status agent = Busy) example_agents
     = example_agents"
  "length example_agents = 10"
  by (simp_all add: example_agents_def example_agent_def)

text \<open>
  C6 (as stated, refuted): the claim says that with ten agents of which nine are busy the
  recommended actions include the near-capacity advisory.  For nine busy agents and one
  idle agent they do not.
\<close>

theorem C6_counterexample:
  "nearCapacityAdvisory \<notin> set (recommendedActions (getSwarmHealth example_agents)) \<and>
   length example_agents = 10 \<and>
   length (filter (\<lambda>agent. agent_status agent = Busy) example_agents) = 9"
  by (simp add: getSwarmHealth_def Let_def swarm_loadPercentage_def filter_busy_example
        nearCapacityAdvisory_def lowUtilizationAdvisory_def unhealthyAdvisory_def)

lemma near_iff:
  "nearCapacityAdvisory \<in> set (recommendedActions (getSwarmHealth agents))
     \<longleftrightarrow> swarm_loadPercentage agents > 90"
  by (simp add: getSwarmHealth_def Let_def
        nearCapacityAdvisory_def lowUtilizationAdvisory_def unhealthyAdvisory_def)

lemma math_round_of_int: "math_round (rat_of_int n) = n"
  unfolding math_round_def by (rule floor_unique) simp_all

lemma math_round_9000: "math_round 9000 = 9000"
  using math_round_of_int [of 9000] by simp

lemma load_nine_of_ten:
  "length agents = 10 \<Longrightarrow> length (filter (\<lambda>agent. agent_status agent = Busy) agents) = 9
   \<Longrightarrow> swarm_loadPercentage agents = 90"
  by (simp add: swarm_loadPercentage_def Let_def)

text \<open>
  C6 (amended): for a registry of ten agents of which nine are busy, the swarm health has
  load percentage 90 and is not healthy; its recommended actions include the advisory to
  investigate failures and do not include the near-capacity advisory.  In general the
  near-capacity advisory is emitted exactly when the load percentage is greater than 90.
\<close>

theorem C6_getSwarmHealth_nine_of_ten:
  "(length agents = 10 \<and> length (filter (\<lambda>agent. agent_status agent = Busy) agents) = 9
      \<longrightarrow> loadPercentage (getSwarmHealth agents) = 90 \<and>
          \<not> healthy (getSwarmHealth agents) \<and>
          nearCapacityAdvisory \<notin> set (recommendedActions (getSwarmHealth agents)) \<and>
          unhealthyAdvisory \<in> set (recommendedActions (getSwarmHealth agents))) \<and>
   (nearCapacityAdvisory \<in> set (recommendedActions (getSwarmHealth others))
      \<longleftrightarrow> swarm_loadPercentage others > 90)"
proof (intro conjI impI)
  assume a: "length agents = 10 \<and> length (filter (\<lambda>agent. agent_status agent = Busy) agents) = 9"
  then have l: "swarm_loadPercentage agents = 90" using load_nine_of_ten by blast
  then show "loadPercentage (getSwarmHealth agents) = 90"
    by (simp add: getSwarmHealth_def Let_def math_round_9000)
  from l show "\<not> healthy (getSwarmHealth agents)"
    by (simp add: getSwarmHealth_def Let_def)
  from l show "nearCapacityAdvisory \<notin> set (recommendedActions (getSwarmHealth agents))"
    by (simp add: near_iff)
  from l show "unhealthyAdvisory \<in> set (recommendedActions (getSwarmHealth agents))"
    by (simp add: getSwarmHealth_def Let_def)
next
  show "nearCapacityAdvisory \<in> set (recommendedActions (getSwarmHealth others))
          \<longleftrightarrow> swarm_loadPercentage others > 90"
    by (rule near_iff)
qed

theorem C6_getSwarmHealth_nine_of_ten_witness:
  "loadPercentage (getSwarmHealth example_agents) = 90 \<and>
   \<not> healthy (getSwarmHealth example_agents) \<and>
   nearCapacityAdvisory \<notin> set (recommendedActions (getSwarmHealth example_agents)) \<and>
   unhealthyAdvisory \<in> set (recommendedActions (getSwarmHealth example_agents))"
proof -
  have h: "length example_agents = 10 \<and>
           length (filter (\<lambda>agent. agent_status agent = Busy) example_agents) = 9"
    by (simp add: filter_busy_example)
  show ?thesis
    using C6_getSwarmHealth_nine_of_ten [of example_agents] h by blast
qed

text \<open>
  C7 (the source at a failing input): the claim says that the average task duration is the
  mean over the successful results only.  For one successful result of 10 ms and one
  failed result of 30 ms that mean is 10, and the source returns 40: it adds the durations
  of all results and divides by the number of successful ones.
\<close>

theorem C7_getAgentStatistics_failing_input:
  "averageTaskDuration (getAgentStatistics [] example_results) = 40 \<and>
   spec_meanSuccessfulDuration example_results = 10"
  by (simp add: getAgentStatistics_def spec_meanSuccessfulDuration_def Let_def
        example_results_def or_number_def)

lemma submitTask_with_options:
  assumes "submitTask_options submission
             = \<lparr>option_timeout = timeoutMs submission, option_maxRetries = k\<rparr>"
  shows "submitTask_options submission
        = \<lparr>option_timeout = timeoutMs submission, option_maxRetries = k\<rparr> \<and>
      (let result = exec (submitTask_task submission)
                      \<lparr>option_timeout = timeoutMs submission, option_maxRetries = k\<rparr>
       in submitTask exec submission =
            \<lparr>status_taskId = taskId submission,
             status_status = (if success result then Completed else Failed),
             assignedAgent = agentId result,
             status_startTime = result_startTime result,
             status_endTime = result_endTime result,
             status_duration = duration result,
             progress = (if success result then 1 else 0),
             status_result = result_output result,
             status_error = result_error result\<rparr>) \<and>
      submitTask exec submission =
        submitTask (\<lambda>task options. exec task
                      \<lparr>option_timeout = timeoutMs submission, option_maxRetries = k\<rparr>)
          submission \<and>
      status_duration (submitTask example_probe submission) = Some k"
proof -
  have call: "(let result = exec (submitTask_task submission)
                      \<lparr>option_timeout = timeoutMs submission, option_maxRetries = k\<rparr>
       in submitTask exec submission =
            \<lparr>status_taskId = taskId submission,
             status_status = (if success result then Completed else Failed),
             assignedAgent = agentId result,
             status_startTime = result_startTime result,
             status_endTime = result_endTime result,
             status_duration = duration result,
             progress = (if success result then 1 else 0),
             status_result = result_output result,
             status_error = result_error result\<rparr>)"
    unfolding submitTask_def assms by (simp only: Let_def)
  have same: "submitTask exec submission =
        submitTask (\<lambda>task options. exec task
                      \<lparr>option_timeout = timeoutMs submission, option_maxRetries = k\<rparr>)
          submission"
    unfolding submitTask_def assms by (rule refl)
  have probe: "status_duration (submitTask example_probe submission) = Some k"
    unfolding submitTask_def assms by (simp add: Let_def example_probe_def)
  show ?thesis using assms call same probe by blast
qed

text \<open>
  C10: a submission whose retry budget is \<open>0\<close> makes the facade call the executor, with
  the task built from the submission, the submission's timeout and a retry budget of
  \<open>3\<close>, and answer with the conversion of what that call returns; a submission with a
  positive budget makes it call the executor with that budget.  An executor that reports
  the budget it was called with shows \<open>3\<close> in the first case and the submitted budget
  in the second.
\<close>

theorem C10_submitTask_maxRetries:
  "(maxRetries submission = Some 0 \<longrightarrow>
      submitTask_options submission
        = \<lparr>option_timeout = timeoutMs submission, option_maxRetries = 3\<rparr> \<and>
      (let result = exec (submitTask_task submission)
                      \<lparr>option_timeout = timeoutMs submission, option_maxRetries = 3\<rparr>
       in submitTask exec submission =
            \<lparr>status_taskId = taskId submission,
             status_status = (if success result then Completed else Failed),
             assignedAgent = agentId result,
             status_startTime = result_startTime result,
             status_endTime = result_endTime result,
             status_duration = duration result,
             progress = (if success result then 1 else 0),
             status_result = result_output result,
             status_error = result_error result\<rparr>) \<and>
      submitTask exec submission =
        submitTask (\<lambda>task options. exec task
                      \<lparr>option_timeout = timeoutMs submission, option_maxRetries = 3\<rparr>)
          submission \<and>
      status_duration (submitTask example_probe submission) = Some 3) \<and>
   (maxRetries submission = Some n \<and> 0 < n \<longrightarrow>
      submitTask_options submission
        = \<lparr>option_timeout = timeoutMs submission, option_maxRetries = n\<rparr> \<and>
      (let result = exec (submitTask_task submission)
                      \<lparr>option_timeout = timeoutMs submission, option_maxRetries = n\<rparr>
       in submitTask exec submission =
            \<lparr>status_taskId = taskId submission,
             status_status = (if success result then Completed else Failed),
             assignedAgent = agentId result,
             status_startTime = result_startTime result,
             status_endTime = result_endTime result,
             status_duration = duration result,
             progress = (if success result then 1 else 0),
             status_result = result_output result,
             status_error = result_error result\<rparr>) \<and>
      submitTask exec submission =
        submitTask (\<lambda>task options. exec task
                      \<lparr>option_timeout = timeoutMs submission, option_maxRetries = n\<rparr>)
          submission \<and>
      status_duration (submitTask example_probe submission) = Some n)"
proof (rule conjI; rule impI)
  assume "maxRetries submission = Some 0"
  then have "submitTask_options submission
               = \<lparr>option_timeout = timeoutMs submission, option_maxRetries = 3\<rparr>"
    by (simp add: submitTask_options_def or_number_def)
  then show "submitTask_options submission
        = \<lparr>option_timeout = timeoutMs submission, option_maxRetries = 3\<rparr> \<and>
      (let result = exec (submitTask_task submission)
                      \<lparr>option_timeout = timeoutMs submission, option_maxRetries = 3\<rparr>
       in submitTask exec submission =
            \<lparr>status_taskId = taskId submission,
             status_status = (if success result then Completed else Failed),
             assignedAgent = agentId result,
             status_startTime = result_startTime result,
             status_endTime = result_endTime result,
             status_duration = duration result,
             progress = (if success result then 1 else 0),
             status_result = result_output result,
             status_error = result_error result\<rparr>) \<and>
      submitTask exec submission =
        submitTask (\<lambda>task options. exec task
                      \<lparr>option_timeout = timeoutMs submission, option_maxRetries = 3\<rparr>)
          submission \<and>
      status_duration (submitTask example_probe submission) = Some 3"
    by (rule submitTask_with_options)
next
  assume "maxRetries submission = Some n \<and> 0 < n"
  then have "submitTask_options submission
               = \<lparr>option_timeout = timeoutMs submission, option_maxRetries = n\<rparr>"
    by (simp add: submitTask_options_def or_number_def)
  then show "submitTask_options submission
        = \<lparr>option_timeout = timeoutMs submission, option_maxRetries = n\<rparr> \<and>
      (let result = exec (submitTask_task submission)
                      \<lparr>option_timeout = timeoutMs submission, option_maxRetries = n\<rparr>
       in submitTask exec submission =
            \<lparr>status_taskId = taskId submission,
             status_status = (if success result then Completed else Failed),
             assignedAgent = agentId result,
             status_startTime = result_startTime result,
             status_endTime = result_endTime result,
             status_duration = duration result,
             progress = (if success result then 1 else 0),
             status_result = result_output result,
             status_error = result_error result\<rparr>) \<and>
      submitTask exec submission =
        submitTask (\<lambda>task options. exec task
                      \<lparr>option_timeout = timeoutMs submission, option_maxRetries = n\<rparr>)
          submission \<and>
      status_duration (submitTask example_probe submission) = Some n"
    by (rule submitTask_with_options)
qed

theorem C10_submitTask_maxRetries_witness:
  "status_duration (submitTask example_probe (example_submission (Some 0))) = Some 3 \<and>
   status_duration (submitTask example_probe (example_submission (Some 2))) = Some 2 \<and>
   status_error (submitTask example_probe (example_submission (Some 0))) = Some ''probe''"
proof -
  have a: "maxRetries (example_submission (Some 0)) = Some 0"
    by (simp add: example_submission_def)
  have b: "maxRetries (example_submission (Some 2)) = Some 2 \<and> (0::int) < 2"
    by (simp add: example_submission_def)
  have a': "status_duration (submitTask example_probe (example_submission (Some 0))) = Some 3"
    using C10_submitTask_maxRetries [where submission = "example_submission (Some 0)"
            and exec = example_probe] a
    by blast
  have a'': "submitTask example_probe (example_submission (Some 0)) =
        submitTask (\<lambda>task options. example_probe task
                      \<lparr>option_timeout = timeoutMs (example_submission (Some 0)),
                       option_maxRetries = 3\<rparr>)
          (example_submission (Some 0))"
    using C10_submitTask_maxRetries [where submission = "example_submission (Some 0)"
            and exec = example_probe] a
    by blast
  have b': "status_duration (submitTask example_probe (example_submission (Some 2))) = Some 2"
    using C10_submitTask_maxRetries [where submission = "example_submission (Some 2)"
            and exec = example_probe and n = 2] b
    by blast
  have c: "status_error (submitTask example_probe (example_submission (Some 0))) = Some ''probe''"
    by (simp only: a'') (simp add: submitTask_def example_probe_def Let_def)
  show ?thesis using a' b' c by simp
qed

end
